theory Spec2Isabelle
  imports Main "HOL-Library.Word" "HOL-Library.Sublist"
begin

section \<open>The web terminal bridge of \<^verbatim>\<open>web_terminal.py\<close>\<close>

text \<open>
  The program is one coroutine, \<^verbatim>\<open>websocket_handler\<close>, an output-relay task it starts
  (\<^verbatim>\<open>read_pty\<close>, once for Windows and once for POSIX) and the helper
  \<^verbatim>\<open>set_pty_size\<close>. Everything they do is a call into the operating system, the
  WebSocket library or the PTY library, so the embedding is a trace semantics: a function
  of the program takes the trace of calls made so far and returns the extended trace
  together with the exception it raised, if any. What a call returns or raises is not
  decided by the program; it is read from an \<open>environment\<close>, over which every theorem
  quantifies.
\<close>

subsection \<open>Values\<close>

text \<open>
  Python \<^verbatim>\<open>bytes\<close> are lists of 8-bit characters. A Python \<^verbatim>\<open>str\<close> that arrived in a
  TEXT frame is represented by its UTF-8 encoding, which is the payload of the frame
  (the WebSocket library decodes the payload, and \<^verbatim>\<open>str.encode()\<close> encodes it back).
\<close>

type_synonym bytes = string

definition str_encode :: "string \<Rightarrow> bytes" where
  "str_encode s = s"

text \<open>
  What \<^verbatim>\<open>json.loads\<close> returns. A \<^verbatim>\<open>dict\<close> is an association list read with
  \<open>map_of\<close>: the first pair of a key is its entry. No operation of the program
  reads a float, which is kept as its literal.
\<close>

datatype json =
    JNull
  | JBool bool
  | JInt int
  | JFloat string
  | JStr string
  | JList "json list"
  | JDict "(string \<times> json) list"

text \<open>The exceptions of the program and of its libraries.\<close>

datatype exn =
    JSONDecodeError
  | RecursionError
  | StructError
  | OSError
  | ConnectionResetError
  | CancelledError
  | KeyboardInterrupt

text \<open>
  \<^verbatim>\<open>except Exception\<close> catches what derives from \<^verbatim>\<open>Exception\<close>;
  \<^verbatim>\<open>CancelledError\<close> and \<^verbatim>\<open>KeyboardInterrupt\<close> derive from \<^verbatim>\<open>BaseException\<close> only.
\<close>

fun is_Exception :: "exn \<Rightarrow> bool" where
  "is_Exception CancelledError = False"
| "is_Exception KeyboardInterrupt = False"
| "is_Exception _ = True"

text \<open>
  The argument of \<^verbatim>\<open>pty.write\<close> and the result of \<^verbatim>\<open>pty.read\<close> on Windows: a
  \<^verbatim>\<open>str\<close> or a \<^verbatim>\<open>bytes\<close> object.
\<close>

datatype py_data = Str string | Bytes bytes

text \<open>\<^verbatim>\<open>struct winsize\<close>: \<open>ws_row\<close>, \<open>ws_col\<close>, \<open>ws_xpixel\<close>, \<open>ws_ypixel\<close>, each an unsigned short.\<close>

type_synonym winsize = "16 word \<times> 16 word \<times> 16 word \<times> 16 word"

subsection \<open>Calls, traces and the environment\<close>

datatype call =
    WsPrepare
  | WsSendStr string
  | WsSendBytes bytes
  | WsClose
  | PtySpawn string "nat \<times> nat"
  | PtySetwinsize json json
  | PtyWrite py_data
  | PtyTerminate
  | OsOpenpty
  | Popen string string int
  | OsClose int
  | OsWrite int bytes
  | IoctlTIOCSWINSZ int winsize
  | EnsureFuture
  | TaskCancel
  | ProcTerminate

text \<open>An event is a call with the exception it raised (\<open>None\<close>: it returned).\<close>

type_synonym event = "call \<times> exn option"
type_synonym trace = "event list"
type_synonym outcome = "trace \<times> exn option"

text \<open>
  The environment: the result of \<^verbatim>\<open>json.loads\<close> on each text, whether a call raises
  after a given history, the descriptors \<^verbatim>\<open>os.openpty()\<close> returns, and
  \<^verbatim>\<open>os.environ\<close>.
\<close>

record environment =
  json_loads :: "string \<Rightarrow> exn + json"
  raises :: "trace \<Rightarrow> call \<Rightarrow> exn option"
  openpty_fds :: "int \<times> int"
  os_environ :: "string \<Rightarrow> string option"

text \<open>\<^verbatim>\<open>request.query\<close> and \<^verbatim>\<open>request.app['shell']\<close>.\<close>

record request =
  query :: "string \<Rightarrow> string option"
  app_shell :: string

text \<open>The messages the connection yields (\<open>OTHER\<close>: any other message type).\<close>

datatype ws_msg = TEXT string | BINARY bytes | CLOSE | OTHER

text \<open>A call that may raise, and a call that cannot (\<^verbatim>\<open>ensure_future\<close>, \<^verbatim>\<open>task.cancel\<close>).\<close>

definition perform :: "environment \<Rightarrow> trace \<Rightarrow> call \<Rightarrow> outcome" where
  "perform env tr c = (tr @ [(c, raises env tr c)], raises env tr c)"

definition emit :: "trace \<Rightarrow> call \<Rightarrow> outcome" where
  "emit tr c = (tr @ [(c, None)], None)"

text \<open>Statement sequencing, \<^verbatim>\<open>try ... except Exception\<close> and \<^verbatim>\<open>try ... finally\<close>.\<close>

definition seq :: "outcome \<Rightarrow> (trace \<Rightarrow> outcome) \<Rightarrow> outcome" where
  "seq r k = (case r of (tr, None) \<Rightarrow> k tr | (tr, Some e) \<Rightarrow> (tr, Some e))"

definition try_except :: "outcome \<Rightarrow> (trace \<Rightarrow> outcome) \<Rightarrow> outcome" where
  "try_except r handler =
     (case r of
        (tr, None) \<Rightarrow> (tr, None)
      | (tr, Some e) \<Rightarrow> if is_Exception e then handler tr else (tr, Some e))"

definition try_finally :: "outcome \<Rightarrow> (trace \<Rightarrow> outcome) \<Rightarrow> outcome" where
  "try_finally r cleanup =
     (case r of
        (tr, res) \<Rightarrow>
          (case cleanup tr of
             (tr', None) \<Rightarrow> (tr', res)
           | (tr', Some e) \<Rightarrow> (tr', Some e)))"

subsection \<open>\<^verbatim>\<open>set_pty_size\<close>\<close>

text \<open>
  \<^verbatim>\<open>struct.pack('HHHH', rows, cols, 0, 0)\<close>: format \<open>H\<close> takes an integer (a \<^verbatim>\<open>bool\<close> is
  one) from 0 to 65535 and raises \<^verbatim>\<open>struct.error\<close> on anything else. The four fields
  are laid out in native order, which is the order the kernel reads them in.
\<close>

fun pack_H :: "json \<Rightarrow> exn + 16 word" where
  "pack_H (JInt n) = (if 0 \<le> n \<and> n \<le> 65535 then Inr (word_of_int n) else Inl StructError)"
| "pack_H (JBool b) = Inr (if b then 1 else 0)"
| "pack_H _ = Inl StructError"

definition struct_pack_HHHH :: "json \<Rightarrow> json \<Rightarrow> json \<Rightarrow> json \<Rightarrow> exn + winsize" where
  "struct_pack_HHHH a b c d =
     (case (pack_H a, pack_H b, pack_H c, pack_H d) of
        (Inr a', Inr b', Inr c', Inr d') \<Rightarrow> Inr (a', b', c', d')
      | _ \<Rightarrow> Inl StructError)"

definition set_pty_size :: "environment \<Rightarrow> trace \<Rightarrow> int \<Rightarrow> json \<Rightarrow> json \<Rightarrow> outcome" where
  "set_pty_size env tr fd rows cols =
     (case struct_pack_HHHH rows cols (JInt 0) (JInt 0) of
        Inl e \<Rightarrow> (tr, Some e)
      | Inr winsize \<Rightarrow> perform env tr (IoctlTIOCSWINSZ fd winsize))"

subsection \<open>The inbound-message loop\<close>

text \<open>
  \<^verbatim>\<open>j.get(key, default)\<close> on a dict, the test
  \<^verbatim>\<open>isinstance(j, dict) and j.get('type')=='resize'\<close>, and the two arguments
  \<^verbatim>\<open>j.get('rows',24)\<close> and \<^verbatim>\<open>j.get('cols',80)\<close>, which the program evaluates for a
  resize object only.
\<close>

definition dict_get :: "(string \<times> json) list \<Rightarrow> string \<Rightarrow> json \<Rightarrow> json" where
  "dict_get kvs k d = (case map_of kvs k of None \<Rightarrow> d | Some v \<Rightarrow> v)"

fun is_resize :: "json \<Rightarrow> bool" where
  "is_resize (JDict kvs) = (dict_get kvs ''type'' JNull = JStr ''resize'')"
| "is_resize _ = False"

fun resize_rows :: "json \<Rightarrow> json" where
  "resize_rows (JDict kvs) = dict_get kvs ''rows'' (JInt 24)"
| "resize_rows _ = JNull"

fun resize_cols :: "json \<Rightarrow> json" where
  "resize_cols (JDict kvs) = dict_get kvs ''cols'' (JInt 80)"
| "resize_cols _ = JNull"

text \<open>
  The POSIX branch. The body of the \<^verbatim>\<open>try\<close> statement of a TEXT message is
  \<^verbatim>\<open>json.loads\<close>, then \<^verbatim>\<open>set_pty_size\<close> when the value is a resize object; the
  \<^verbatim>\<open>except Exception\<close> clause writes the text to the master descriptor.
\<close>

definition text_try_posix :: "environment \<Rightarrow> int \<Rightarrow> trace \<Rightarrow> string \<Rightarrow> outcome" where
  "text_try_posix env master_fd tr data =
     (case json_loads env data of
        Inl e \<Rightarrow> (tr, Some e)
      | Inr j \<Rightarrow>
          if is_resize j then set_pty_size env tr master_fd (resize_rows j) (resize_cols j)
          else (tr, None))"

fun on_message_posix :: "environment \<Rightarrow> int \<Rightarrow> trace \<Rightarrow> ws_msg \<Rightarrow> outcome" where
  "on_message_posix env master_fd tr (TEXT data) =
     try_except (text_try_posix env master_fd tr data)
       (\<lambda>tr'. perform env tr' (OsWrite master_fd (str_encode data)))"
| "on_message_posix env master_fd tr (BINARY data) = perform env tr (OsWrite master_fd data)"
| "on_message_posix env master_fd tr _ = (tr, None)"

declare on_message_posix.simps [simp del]

text \<open>The Windows branch: \<^verbatim>\<open>pty.setwinsize\<close> and \<^verbatim>\<open>pty.write\<close> in their places.\<close>

definition text_try_windows :: "environment \<Rightarrow> trace \<Rightarrow> string \<Rightarrow> outcome" where
  "text_try_windows env tr data =
     (case json_loads env data of
        Inl e \<Rightarrow> (tr, Some e)
      | Inr j \<Rightarrow>
          if is_resize j then perform env tr (PtySetwinsize (resize_rows j) (resize_cols j))
          else (tr, None))"

fun on_message_windows :: "environment \<Rightarrow> trace \<Rightarrow> ws_msg \<Rightarrow> outcome" where
  "on_message_windows env tr (TEXT data) =
     try_except (text_try_windows env tr data) (\<lambda>tr'. perform env tr' (PtyWrite (Str data)))"
| "on_message_windows env tr (BINARY data) = perform env tr (PtyWrite (Bytes data))"
| "on_message_windows env tr _ = (tr, None)"

declare on_message_windows.simps [simp del]

text \<open>
  The loop \<^verbatim>\<open>async for msg in ws\<close> over the body \<open>step\<close> of either branch. The messages
  are those the connection yields; \<open>fin\<close> is how the iteration ends after them: \<open>None\<close>
  when the connection is closed, \<open>Some e\<close> when receiving raises \<open>e\<close>. A CLOSE message
  leaves the loop.
\<close>

fun inbound_loop ::
  "(trace \<Rightarrow> ws_msg \<Rightarrow> outcome) \<Rightarrow> trace \<Rightarrow> ws_msg list \<Rightarrow> exn option \<Rightarrow> outcome" where
  "inbound_loop step tr [] fin = (tr, fin)"
| "inbound_loop step tr (CLOSE # ms) fin = (tr, None)"
| "inbound_loop step tr (m # ms) fin = seq (step tr m) (\<lambda>tr'. inbound_loop step tr' ms fin)"

subsection \<open>The output-relay task \<^verbatim>\<open>read_pty\<close>\<close>

text \<open>
  The relay reads until the PTY gives no more data. What it reads is the input of the
  task: for POSIX the results of the successive \<^verbatim>\<open>os.read(master_fd, 1024)\<close>, each a
  byte string (empty at end of file) or an exception; for Windows the successive polls
  of \<^verbatim>\<open>pty.isalive()\<close>, each followed, when the child is alive, by the result of
  \<^verbatim>\<open>pty.read(1024)\<close>. A task that has used up the results observed so far is suspended
  in its read. A task cancelled while it awaits a call sees that call raise
  \<^verbatim>\<open>CancelledError\<close>.
\<close>

datatype task_state = Done | Failed exn | Suspended

datatype poll = NotAlive | Alive "exn + py_data"

text \<open>\<^verbatim>\<open>json.dumps({'type':'disconnect'})\<close>.\<close>

definition disconnect_notice :: string where
  \<open>disconnect_notice = ''{"type": "disconnect"}''\<close>

definition relay_finish :: "environment \<Rightarrow> trace \<Rightarrow> trace \<times> task_state" where
  "relay_finish env tr =
     (case seq (perform env tr (WsSendStr disconnect_notice)) (\<lambda>tr'. perform env tr' WsClose) of
        (tr', None) \<Rightarrow> (tr', Done)
      | (tr', Some e) \<Rightarrow> (tr', Failed e))"

fun read_pty_posix :: "environment \<Rightarrow> trace \<Rightarrow> (exn + bytes) list \<Rightarrow> trace \<times> task_state" where
  "read_pty_posix env tr [] = (tr, Suspended)"
| "read_pty_posix env tr (Inl e # rs) = (tr, Failed e)"
| "read_pty_posix env tr (Inr data # rs) =
     (if data = [] then relay_finish env tr
      else
        (case perform env tr (WsSendBytes data) of
           (tr', None) \<Rightarrow> read_pty_posix env tr' rs
         | (tr', Some e) \<Rightarrow> (tr', Failed e)))"

text \<open>\<^verbatim>\<open>not data\<close>, and \<^verbatim>\<open>data.encode() if isinstance(data,str) else data\<close>.\<close>

fun py_data_empty :: "py_data \<Rightarrow> bool" where
  "py_data_empty (Str s) = (s = [])"
| "py_data_empty (Bytes b) = (b = [])"

fun as_bytes :: "py_data \<Rightarrow> bytes" where
  "as_bytes (Str s) = str_encode s"
| "as_bytes (Bytes b) = b"

fun read_pty_windows :: "environment \<Rightarrow> trace \<Rightarrow> poll list \<Rightarrow> trace \<times> task_state" where
  "read_pty_windows env tr [] = (tr, Suspended)"
| "read_pty_windows env tr (NotAlive # ps) = relay_finish env tr"
| "read_pty_windows env tr (Alive (Inl e) # ps) = (tr, Failed e)"
| "read_pty_windows env tr (Alive (Inr data) # ps) =
     (if py_data_empty data then relay_finish env tr
      else
        (case perform env tr (WsSendBytes (as_bytes data)) of
           (tr', None) \<Rightarrow> read_pty_windows env tr' ps
         | (tr', Some e) \<Rightarrow> (tr', Failed e)))"

subsection \<open>\<^verbatim>\<open>websocket_handler\<close>\<close>

text \<open>
  The token check: \<^verbatim>\<open>expected = os.environ.get('TERMINAL_TOKEN')\<close>,
  \<^verbatim>\<open>token = request.query.get('token') or ''\<close>, and the test
  \<^verbatim>\<open>not expected or token != expected\<close>.
\<close>

definition offered_token :: "request \<Rightarrow> string" where
  "offered_token req = (case query req ''token'' of None \<Rightarrow> [] | Some t \<Rightarrow> t)"

definition token_rejected :: "environment \<Rightarrow> request \<Rightarrow> bool" where
  "token_rejected env req =
     (case os_environ env ''TERMINAL_TOKEN'' of
        None \<Rightarrow> True
      | Some expected \<Rightarrow> expected = [] \<or> offered_token req \<noteq> expected)"

definition rejection_text :: string where
  "rejection_text = ''Invalid token or TERMINAL_TOKEN not set.''"

text \<open>The \<^verbatim>\<open>finally\<close> clauses of the two branches.\<close>

definition teardown_windows :: "environment \<Rightarrow> trace \<Rightarrow> outcome" where
  "teardown_windows env tr =
     seq (emit tr TaskCancel)
       (\<lambda>tr'. try_except (perform env tr' PtyTerminate) (\<lambda>tr''. (tr'', None)))"

definition teardown_posix :: "environment \<Rightarrow> int \<Rightarrow> trace \<Rightarrow> outcome" where
  "teardown_posix env master_fd tr =
     seq (emit tr TaskCancel)
       (\<lambda>tr'. seq (perform env tr' ProcTerminate)
          (\<lambda>tr''. perform env tr'' (OsClose master_fd)))"

text \<open>
  The Windows branch: \<^verbatim>\<open>cols, rows = 80, 24\<close>, the spawn with
  \<^verbatim>\<open>dimensions=(rows, cols)\<close>, the relay task, the loop and its \<^verbatim>\<open>finally\<close>.
\<close>

definition session_windows ::
  "environment \<Rightarrow> request \<Rightarrow> trace \<Rightarrow> ws_msg list \<Rightarrow> exn option \<Rightarrow> outcome" where
  "session_windows env req tr msgs fin =
     (let cols = 80; rows = 24 in
      seq (perform env tr (PtySpawn (app_shell req) (rows, cols)))
        (\<lambda>tr1. seq (emit tr1 EnsureFuture)
           (\<lambda>tr2. try_finally (inbound_loop (on_message_windows env) tr2 msgs fin)
              (teardown_windows env))))"

text \<open>
  The POSIX branch: \<^verbatim>\<open>os.openpty()\<close>, the environment with \<^verbatim>\<open>TERM\<close> defaulted, the
  \<^verbatim>\<open>Popen\<close> on the slave descriptor, \<^verbatim>\<open>os.close(slave_fd)\<close>, the relay task, the loop
  and its \<^verbatim>\<open>finally\<close>.
\<close>

definition session_posix ::
  "environment \<Rightarrow> request \<Rightarrow> trace \<Rightarrow> ws_msg list \<Rightarrow> exn option \<Rightarrow> outcome" where
  "session_posix env req tr msgs fin =
     seq (perform env tr OsOpenpty)
       (\<lambda>tr1.
          (let master_fd = fst (openpty_fds env);
               slave_fd = snd (openpty_fds env);
               term_value = (case os_environ env ''TERM'' of
                          None \<Rightarrow> ''xterm-256color'' | Some t \<Rightarrow> t) in
           seq (perform env tr1 (Popen (app_shell req) term_value slave_fd))
             (\<lambda>tr2. seq (perform env tr2 (OsClose slave_fd))
                (\<lambda>tr3. seq (emit tr3 EnsureFuture)
                   (\<lambda>tr4. try_finally
                      (inbound_loop (on_message_posix env master_fd) tr4 msgs fin)
                      (teardown_posix env master_fd))))))"

text \<open>
  The handler, on platform \<open>is_windows\<close>. The result \<open>None\<close> is the normal return of
  the response object.
\<close>

definition websocket_handler ::
  "environment \<Rightarrow> bool \<Rightarrow> request \<Rightarrow> ws_msg list \<Rightarrow> exn option \<Rightarrow> outcome" where
  "websocket_handler env is_windows req msgs fin =
     seq (perform env [] WsPrepare)
       (\<lambda>tr.
          if token_rejected env req then
            seq (perform env tr (WsSendStr rejection_text)) (\<lambda>tr'. perform env tr' WsClose)
          else if is_windows then session_windows env req tr msgs fin
          else session_posix env req tr msgs fin)"

subsection \<open>What a trace says about the session\<close>

text \<open>
  How often a call occurs in a trace, how often it occurs and has returned, and the
  calls that start a shell.
\<close>

definition occurrences :: "call \<Rightarrow> trace \<Rightarrow> nat" where
  "occurrences c tr = length (filter (\<lambda>ev. fst ev = c) tr)"


fun is_spawn_call :: "call \<Rightarrow> bool" where
  "is_spawn_call (PtySpawn shell dims) = True"
| "is_spawn_call OsOpenpty = True"
| "is_spawn_call (Popen shell term_value fd) = True"
| "is_spawn_call _ = False"

text \<open>The calls the inbound loop makes: writes to the PTY and changes of its geometry.\<close>

fun is_pty_call :: "call \<Rightarrow> bool" where
  "is_pty_call (OsWrite fd data) = True"
| "is_pty_call (PtyWrite data) = True"
| "is_pty_call (IoctlTIOCSWINSZ fd winsize) = True"
| "is_pty_call (PtySetwinsize rows cols) = True"
| "is_pty_call _ = False"

text \<open>The bytes handed to the PTY's write operation by the calls that returned.\<close>

fun input_of :: "event \<Rightarrow> bytes" where
  "input_of (OsWrite fd data, None) = data"
| "input_of (PtyWrite data, None) = as_bytes data"
| "input_of _ = []"

definition pty_input :: "trace \<Rightarrow> bytes" where
  "pty_input tr = concat (map input_of tr)"

text \<open>
  The geometry (rows, columns) the PTY holds after a trace: that of the last call that
  set one and returned; \<open>None\<close> while no call has set it.
\<close>

fun geometry_of :: "event \<Rightarrow> (nat \<times> nat) option" where
  "geometry_of (PtySpawn shell dims, None) = Some dims"
| "geometry_of (IoctlTIOCSWINSZ fd (r, c, x, y), None) = Some (unat r, unat c)"
| "geometry_of _ = None"

fun pty_geometry :: "trace \<Rightarrow> (nat \<times> nat) option" where
  "pty_geometry [] = None"
| "pty_geometry (ev # tr) =
     (case pty_geometry tr of Some g \<Rightarrow> Some g | None \<Rightarrow> geometry_of ev)"

text \<open>The binary frames and the disconnect notices a trace has sent.\<close>

fun frame_of :: "event \<Rightarrow> bytes list" where
  "frame_of (WsSendBytes data, None) = [data]"
| "frame_of _ = []"

definition binary_frames :: "trace \<Rightarrow> bytes list" where
  "binary_frames tr = concat (map frame_of tr)"

text \<open>The data of the reads the relay has consumed: up to the first empty or failed one.\<close>

fun chunks_read :: "(exn + bytes) list \<Rightarrow> bytes list" where
  "chunks_read [] = []"
| "chunks_read (Inl e # rs) = []"
| "chunks_read (Inr data # rs) = (if data = [] then [] else data # chunks_read rs)"

fun chunks_polled :: "poll list \<Rightarrow> bytes list" where
  "chunks_polled [] = []"
| "chunks_polled (NotAlive # ps) = []"
| "chunks_polled (Alive (Inl e) # ps) = []"
| "chunks_polled (Alive (Inr data) # ps) =
     (if py_data_empty data then [] else as_bytes data # chunks_polled ps)"

subsection \<open>An environment and a request for the examples\<close>

text \<open>
  The texts of the examples, and what \<^verbatim>\<open>json.loads\<close> returns on each of them: on
  \<^verbatim>\<open>1\<close> the integer, on the three resize messages their objects, and on \<^verbatim>\<open>ls\<close> (no
  JSON text) a \<^verbatim>\<open>JSONDecodeError\<close>. The examples use no other text.
\<close>

definition resize_40_100 :: string where
  \<open>resize_40_100 = ''{"type":"resize","rows":40,"cols":100}''\<close>

definition resize_40 :: string where
  \<open>resize_40 = ''{"type":"resize","rows":40}''\<close>

definition resize_70000_80 :: string where
  \<open>resize_70000_80 = ''{"type":"resize","rows":70000,"cols":80}''\<close>

definition example_loads :: "string \<Rightarrow> exn + json" where
  "example_loads s =
     (if s = ''1'' then Inr (JInt 1)
      else if s = resize_40_100 then
        Inr (JDict [(''type'', JStr ''resize''), (''rows'', JInt 40), (''cols'', JInt 100)])
      else if s = resize_40 then
        Inr (JDict [(''type'', JStr ''resize''), (''rows'', JInt 40)])
      else if s = resize_70000_80 then
        Inr (JDict [(''type'', JStr ''resize''), (''rows'', JInt 70000), (''cols'', JInt 80)])
      else Inl JSONDecodeError)"

text \<open>
  No call raises, \<^verbatim>\<open>os.openpty()\<close> returns the descriptors 3 and 4, the secret is
  \<^verbatim>\<open>abc123\<close> and \<^verbatim>\<open>TERM\<close> is not set.
\<close>

definition example_env :: environment where
  "example_env =
     \<lparr>json_loads = example_loads,
      raises = (\<lambda>tr c. None),
      openpty_fds = (3, 4),
      os_environ = (\<lambda>k. if k = ''TERMINAL_TOKEN'' then Some ''abc123'' else None)\<rparr>"

text \<open>The same, with no secret configured.\<close>

definition no_secret_env :: environment where
  "no_secret_env = example_env\<lparr>os_environ := (\<lambda>k. None)\<rparr>"

text \<open>The same as the first, but every write to the PTY raises \<^verbatim>\<open>OSError\<close>.\<close>

fun write_raises :: "trace \<Rightarrow> call \<Rightarrow> exn option" where
  "write_raises tr (OsWrite fd data) = Some OSError"
| "write_raises tr (PtyWrite data) = Some OSError"
| "write_raises tr _ = None"

definition exited_env :: environment where
  "exited_env = example_env\<lparr>raises := write_raises\<rparr>"

definition good_request :: request where
  "good_request =
     \<lparr>query = (\<lambda>k. if k = ''token'' then Some ''abc123'' else None), app_shell = ''/bin/bash''\<rparr>"

definition wrong_request :: request where
  "wrong_request =
     \<lparr>query = (\<lambda>k. if k = ''token'' then Some ''wrong'' else None), app_shell = ''/bin/bash''\<rparr>"

section \<open>Properties\<close>

subsection \<open>Basic facts\<close>

lemma seq_simps:
  "seq (tr, None) k = k tr"
  "seq (tr, Some e) k = (tr, Some e)"
  by (simp_all add: seq_def)

lemma try_except_simps:
  "try_except (tr, None) h = (tr, None)"
  "try_except (tr, Some e) h = (if is_Exception e then h tr else (tr, Some e))"
  by (simp_all add: try_except_def)

lemma example_raises: "raises example_env tr c = None"
  by (simp add: example_env_def)

lemma example_loads_ls: "json_loads example_env ''ls'' = Inl JSONDecodeError"
  by (simp add: example_env_def example_loads_def resize_40_100_def resize_40_def
      resize_70000_80_def)

lemma example_loads_1: "json_loads example_env ''1'' = Inr (JInt 1)"
  by (simp add: example_env_def example_loads_def)

subsection \<open>Text frames that are not control data\<close>

text \<open>
  C1, as the code has it. A text frame on which \<^verbatim>\<open>json.loads\<close> raises (an exception
  that \<^verbatim>\<open>except Exception\<close> catches) makes exactly one call: the write to the PTY,
  with the whole text, whose bytes are the frame's payload. When the write returns, the
  input of the PTY has grown by exactly these bytes. This holds in both branches of the
  handler, after every history and in every environment.
\<close>

theorem unparsable_text_forwarded:
  assumes "json_loads env data = Inl e" and "is_Exception e"
  shows "on_message_posix env fd tr (TEXT data) = perform env tr (OsWrite fd (str_encode data))
     \<and> str_encode data = data
     \<and> on_message_windows env tr (TEXT data) = perform env tr (PtyWrite (Str data))
     \<and> (raises env tr (OsWrite fd data) = None \<longrightarrow>
          pty_input (fst (on_message_posix env fd tr (TEXT data))) = pty_input tr @ data)
     \<and> (raises env tr (PtyWrite (Str data)) = None \<longrightarrow>
          pty_input (fst (on_message_windows env tr (TEXT data))) = pty_input tr @ data)"
  using assms
  by (simp add: on_message_posix.simps on_message_windows.simps text_try_posix_def
      text_try_windows_def try_except_simps str_encode_def perform_def pty_input_def)

theorem unparsable_text_forwarded_witness:
  "json_loads example_env ''ls'' = Inl JSONDecodeError \<and> is_Exception JSONDecodeError
   \<and> on_message_posix example_env 3 [] (TEXT ''ls'') = ([(OsWrite 3 ''ls'', None)], None)
   \<and> on_message_windows example_env [] (TEXT ''ls'') = ([(PtyWrite (Str ''ls''), None)], None)
   \<and> pty_input (fst (on_message_posix example_env 3 [] (TEXT ''ls''))) = ''ls''"
proof -
  have e: "is_Exception JSONDecodeError" by simp
  note t = unparsable_text_forwarded [OF example_loads_ls e, of 3 "[]"]
  have t1: "on_message_posix example_env 3 [] (TEXT ''ls'') = ([(OsWrite 3 ''ls'', None)], None)"
    using t by (simp add: perform_def example_raises str_encode_def)
  have t2: "on_message_windows example_env [] (TEXT ''ls'') = ([(PtyWrite (Str ''ls''), None)], None)"
    using t by (simp add: perform_def example_raises)
  have t3: "pty_input (fst (on_message_posix example_env 3 [] (TEXT ''ls''))) = ''ls''"
    by (simp add: t1 pty_input_def)
  from example_loads_ls e t1 t2 t3 show ?thesis by blast
qed

text \<open>
  C1 as stated fails: the text \<^verbatim>\<open>1\<close> is no resize control message, but it is valid
  JSON, so \<^verbatim>\<open>json.loads\<close> returns, the \<^verbatim>\<open>except\<close> clause is not entered and nothing is
  written to the PTY.
\<close>

theorem json_text_dropped_counterexample:
  "json_loads example_env ''1'' = Inr (JInt 1) \<and> \<not> is_resize (JInt 1)
   \<and> on_message_posix example_env 3 [] (TEXT ''1'') = ([], None)
   \<and> on_message_windows example_env [] (TEXT ''1'') = ([], None)
   \<and> pty_input (fst (on_message_posix example_env 3 [] (TEXT ''1''))) = []"
  by (simp add: example_loads_1 on_message_posix.simps on_message_windows.simps
      text_try_posix_def text_try_windows_def try_except_simps pty_input_def)

text \<open>
  C10. A text frame whose payload \<^verbatim>\<open>json.loads\<close> parses to a value that is not an
  object with \<^verbatim>\<open>type\<close> equal to \<^verbatim>\<open>resize\<close> makes no call at all, in either branch:
  the trace is unchanged, nothing is raised, and the loop goes on with the next message.
\<close>

theorem json_non_resize_discarded:
  assumes "json_loads env data = Inr j" and "\<not> is_resize j"
  shows "on_message_posix env fd tr (TEXT data) = (tr, None)
      \<and> on_message_windows env tr (TEXT data) = (tr, None)
      \<and> inbound_loop (on_message_posix env fd) tr (TEXT data # ms) fin
          = inbound_loop (on_message_posix env fd) tr ms fin
      \<and> inbound_loop (on_message_windows env) tr (TEXT data # ms) fin
          = inbound_loop (on_message_windows env) tr ms fin"
  using assms
  by (simp add: on_message_posix.simps on_message_windows.simps text_try_posix_def
      text_try_windows_def try_except_simps seq_simps)

theorem json_non_resize_discarded_witness:
  "json_loads example_env ''1'' = Inr (JInt 1) \<and> \<not> is_resize (JInt 1)
   \<and> on_message_posix example_env 3 [(OsWrite 3 ''ls'', None)] (TEXT ''1'')
        = ([(OsWrite 3 ''ls'', None)], None)
   \<and> on_message_windows example_env [(PtyWrite (Str ''ls''), None)] (TEXT ''1'')
        = ([(PtyWrite (Str ''ls''), None)], None)"
proof -
  have n: "\<not> is_resize (JInt 1)" by simp
  note t = json_non_resize_discarded [OF example_loads_1 n]
  from t [of 3 "[(OsWrite 3 ''ls'', None)]"] t [of 3 "[(PtyWrite (Str ''ls''), None)]"]
    example_loads_1 n
  show ?thesis by blast
qed

subsection \<open>The token check\<close>

text \<open>
  C2. When no secret is configured, or the offered token differs from it, the handler
  does what the rejection does and nothing else: after \<^verbatim>\<open>ws.prepare\<close> it sends the
  rejection text and closes the connection. No call that starts a shell (the Windows
  spawn, \<^verbatim>\<open>os.openpty\<close>, \<^verbatim>\<open>Popen\<close>) occurs in its trace, whatever the environment
  does, on either platform and for every sequence of inbound messages. Where no call
  raises, the trace is exactly prepare, send, close, and the handler returns.
\<close>

theorem bad_token_rejected_without_spawn:
  assumes "os_environ env ''TERMINAL_TOKEN'' = None
           \<or> os_environ env ''TERMINAL_TOKEN'' \<noteq> Some (offered_token req)"
  shows "websocket_handler env is_windows req msgs fin =
           seq (perform env [] WsPrepare)
             (\<lambda>tr. seq (perform env tr (WsSendStr rejection_text))
                (\<lambda>tr'. perform env tr' WsClose))
       \<and> filter (\<lambda>ev. is_spawn_call (fst ev))
            (fst (websocket_handler env is_windows req msgs fin)) = []
       \<and> ((\<forall>h c. raises env h c = None) \<longrightarrow>
            websocket_handler env is_windows req msgs fin =
              ([(WsPrepare, None), (WsSendStr rejection_text, None), (WsClose, None)], None))"
proof -
  have rej: "token_rejected env req"
    using assms by (auto simp: token_rejected_def split: option.splits)
  have eq: "websocket_handler env is_windows req msgs fin =
           seq (perform env [] WsPrepare)
             (\<lambda>tr. seq (perform env tr (WsSendStr rejection_text))
                (\<lambda>tr'. perform env tr' WsClose))"
    by (simp add: websocket_handler_def rej)
  have nospawn: "filter (\<lambda>ev. is_spawn_call (fst ev))
      (fst (websocket_handler env is_windows req msgs fin)) = []"
    unfolding eq by (simp add: seq_def perform_def split: option.splits)
  have ok: "(\<forall>h c. raises env h c = None) \<longrightarrow>
            websocket_handler env is_windows req msgs fin =
              ([(WsPrepare, None), (WsSendStr rejection_text, None), (WsClose, None)], None)"
    unfolding eq by (simp add: seq_def perform_def)
  from eq nospawn ok show ?thesis by blast
qed

theorem bad_token_rejected_without_spawn_witness:
  "os_environ example_env ''TERMINAL_TOKEN'' \<noteq> Some (offered_token wrong_request)
   \<and> websocket_handler example_env False wrong_request [BINARY ''ls''] None =
       ([(WsPrepare, None), (WsSendStr rejection_text, None), (WsClose, None)], None)
   \<and> websocket_handler example_env True wrong_request [BINARY ''ls''] None =
       ([(WsPrepare, None), (WsSendStr rejection_text, None), (WsClose, None)], None)
   \<and> os_environ no_secret_env ''TERMINAL_TOKEN'' = None
   \<and> websocket_handler no_secret_env False good_request [BINARY ''ls''] None =
       ([(WsPrepare, None), (WsSendStr rejection_text, None), (WsClose, None)], None)"
proof -
  have a': "os_environ example_env ''TERMINAL_TOKEN'' \<noteq> Some (offered_token wrong_request)"
    by (simp add: example_env_def offered_token_def wrong_request_def)
  have b': "os_environ no_secret_env ''TERMINAL_TOKEN'' = None"
    by (simp add: no_secret_env_def)
  have a: "os_environ example_env ''TERMINAL_TOKEN'' = None
           \<or> os_environ example_env ''TERMINAL_TOKEN'' \<noteq> Some (offered_token wrong_request)"
    using a' by simp
  have b: "os_environ no_secret_env ''TERMINAL_TOKEN'' = None
           \<or> os_environ no_secret_env ''TERMINAL_TOKEN'' \<noteq> Some (offered_token good_request)"
    using b' by simp
  have r: "\<forall>h c. raises example_env h c = None" by (simp add: example_env_def)
  have r': "\<forall>h c. raises no_secret_env h c = None"
    by (simp add: no_secret_env_def example_env_def)
  have t1: "websocket_handler example_env False wrong_request [BINARY ''ls''] None =
       ([(WsPrepare, None), (WsSendStr rejection_text, None), (WsClose, None)], None)"
    using bad_token_rejected_without_spawn [OF a, of False "[BINARY ''ls'']" None] r by blast
  have t2: "websocket_handler example_env True wrong_request [BINARY ''ls''] None =
       ([(WsPrepare, None), (WsSendStr rejection_text, None), (WsClose, None)], None)"
    using bad_token_rejected_without_spawn [OF a, of True "[BINARY ''ls'']" None] r by blast
  have t3: "websocket_handler no_secret_env False good_request [BINARY ''ls''] None =
       ([(WsPrepare, None), (WsSendStr rejection_text, None), (WsClose, None)], None)"
    using bad_token_rejected_without_spawn [OF b, of False "[BINARY ''ls'']" None] r' by blast
  from t1 t2 t3 a' b' show ?thesis by blast
qed

subsection \<open>Facts about traces and the examples\<close>

lemma pty_geometry_append:
  "pty_geometry (tr @ [ev]) = (case geometry_of ev of Some g \<Rightarrow> Some g | None \<Rightarrow> pty_geometry tr)"
  by (induction tr) (auto split: option.splits)

lemma pty_input_append: "pty_input (tr @ [ev]) = pty_input tr @ input_of ev"
  by (simp add: pty_input_def)

lemma unat_ushort: "0 \<le> n \<Longrightarrow> n \<le> 65535 \<Longrightarrow> unat (word_of_int n :: 16 word) = nat n"
  by (simp add: unat_eq_nat_uint uint_word_of_int take_bit_int_eq_self)

lemma struct_pack_in_range:
  "0 \<le> r \<Longrightarrow> r \<le> 65535 \<Longrightarrow> 0 \<le> c \<Longrightarrow> c \<le> 65535 \<Longrightarrow>
   struct_pack_HHHH (JInt r) (JInt c) (JInt 0) (JInt 0) = Inr (word_of_int r, word_of_int c, 0, 0)"
  by (simp add: struct_pack_HHHH_def)

lemma struct_pack_bad:
  "pack_H r = Inl StructError \<or> pack_H c = Inl StructError \<Longrightarrow>
   struct_pack_HHHH r c x y = Inl StructError"
  by (auto simp: struct_pack_HHHH_def split: sum.splits)

lemma example_loads_40_100:
  "json_loads example_env resize_40_100
     = Inr (JDict [(''type'', JStr ''resize''), (''rows'', JInt 40), (''cols'', JInt 100)])"
  by (simp add: example_env_def example_loads_def resize_40_100_def)

lemma example_loads_40:
  "json_loads example_env resize_40 = Inr (JDict [(''type'', JStr ''resize''), (''rows'', JInt 40)])"
  by (simp add: example_env_def example_loads_def resize_40_100_def resize_40_def)

lemma example_loads_70000:
  "json_loads example_env resize_70000_80
     = Inr (JDict [(''type'', JStr ''resize''), (''rows'', JInt 70000), (''cols'', JInt 80)])"
  by (simp add: example_env_def example_loads_def resize_40_100_def resize_40_def
      resize_70000_80_def)

lemma try_finally_raised: "snd (try_finally (tr, Some e) cleanup) \<noteq> None"
  by (simp add: try_finally_def split: prod.splits option.splits)

lemma set_pty_size_bad:
  "pack_H r = Inl StructError \<or> pack_H c = Inl StructError \<Longrightarrow>
   set_pty_size env tr fd r c = (tr, Some StructError)"
  by (simp add: set_pty_size_def struct_pack_bad)

lemma exited_raises: "raises exited_env = write_raises"
  by (simp add: exited_env_def)

subsection \<open>Resize messages\<close>

text \<open>
  C3, as the code has it. A text frame that parses to a resize object whose rows and
  columns (24 and 80 where the field is missing) are integers from 1 to 65535 makes, in
  the POSIX branch, exactly one call: the \<^verbatim>\<open>TIOCSWINSZ\<close> ioctl on the master descriptor
  with the window size (rows, cols, 0, 0). When that call returns, the PTY holds exactly
  this geometry, nothing has been written to the PTY, and the loop handles the next
  message with the ioctl already in the trace.
\<close>

theorem resize_in_range_applied:
  assumes "json_loads env data = Inr (JDict kvs)"
    and "map_of kvs ''type'' = Some (JStr ''resize'')"
    and "dict_get kvs ''rows'' (JInt 24) = JInt rows"
    and "dict_get kvs ''cols'' (JInt 80) = JInt cols"
    and "0 < rows" and "rows \<le> 65535" and "0 < cols" and "cols \<le> 65535"
    and "raises env tr (IoctlTIOCSWINSZ fd (word_of_int rows, word_of_int cols, 0, 0)) = None"
  shows "on_message_posix env fd tr (TEXT data)
           = (tr @ [(IoctlTIOCSWINSZ fd (word_of_int rows, word_of_int cols, 0, 0), None)], None)
       \<and> pty_geometry (fst (on_message_posix env fd tr (TEXT data))) = Some (nat rows, nat cols)
       \<and> pty_input (fst (on_message_posix env fd tr (TEXT data))) = pty_input tr
       \<and> inbound_loop (on_message_posix env fd) tr (TEXT data # ms) fin
           = inbound_loop (on_message_posix env fd)
               (tr @ [(IoctlTIOCSWINSZ fd (word_of_int rows, word_of_int cols, 0, 0), None)]) ms fin"
proof -
  let ?ev = "(IoctlTIOCSWINSZ fd (word_of_int rows, word_of_int cols, 0, 0), None :: exn option)"
  have res: "is_resize (JDict kvs)"
    using assms(2) by (simp add: dict_get_def)
  have pack: "struct_pack_HHHH (JInt rows) (JInt cols) (JInt 0) (JInt 0)
               = Inr (word_of_int rows, word_of_int cols, 0, 0)"
    using assms(5-8) by (intro struct_pack_in_range) simp_all
  have body: "text_try_posix env fd tr data = (tr @ [?ev], None)"
    using assms(1,3,4,9) res pack
    by (simp add: text_try_posix_def set_pty_size_def perform_def)
  have step: "on_message_posix env fd tr (TEXT data) = (tr @ [?ev], None)"
    by (simp add: on_message_posix.simps body try_except_simps)
  have geo: "pty_geometry (tr @ [?ev]) = Some (nat rows, nat cols)"
    using assms(5-8) by (simp add: pty_geometry_append unat_ushort)
  have inp: "pty_input (tr @ [?ev]) = pty_input tr"
    by (simp add: pty_input_append)
  have loop: "inbound_loop (on_message_posix env fd) tr (TEXT data # ms) fin
           = inbound_loop (on_message_posix env fd) (tr @ [?ev]) ms fin"
    by (simp add: step seq_simps)
  show ?thesis
    unfolding step using geo inp loop step by simp
qed

theorem resize_in_range_applied_witness:
  "json_loads example_env resize_40_100
      = Inr (JDict [(''type'', JStr ''resize''), (''rows'', JInt 40), (''cols'', JInt 100)])
   \<and> json_loads example_env resize_40
      = Inr (JDict [(''type'', JStr ''resize''), (''rows'', JInt 40)])
   \<and> on_message_posix example_env 3 [] (TEXT resize_40_100)
      = ([(IoctlTIOCSWINSZ 3 (40, 100, 0, 0), None)], None)
   \<and> pty_geometry (fst (on_message_posix example_env 3 [] (TEXT resize_40_100))) = Some (40, 100)
   \<and> pty_geometry (fst (on_message_posix example_env 3 [] (TEXT resize_40))) = Some (40, 80)
   \<and> inbound_loop (on_message_posix example_env 3) [] [TEXT resize_40_100, BINARY ''ls''] None
      = ([(IoctlTIOCSWINSZ 3 (40, 100, 0, 0), None), (OsWrite 3 ''ls'', None)], None)"
proof -
  have t1: "on_message_posix example_env 3 [] (TEXT resize_40_100)
      = ([(IoctlTIOCSWINSZ 3 (40, 100, 0, 0), None)], None)"
    using resize_in_range_applied [OF example_loads_40_100, of 40 100 "[]" 3]
    by (simp add: dict_get_def example_raises)
  have t2: "pty_geometry (fst (on_message_posix example_env 3 [] (TEXT resize_40_100))) = Some (40, 100)"
    using resize_in_range_applied [OF example_loads_40_100, of 40 100 "[]" 3]
    by (simp add: dict_get_def example_raises)
  have t3: "pty_geometry (fst (on_message_posix example_env 3 [] (TEXT resize_40))) = Some (40, 80)"
    using resize_in_range_applied [OF example_loads_40, of 40 80 "[]" 3]
    by (simp add: dict_get_def example_raises)
  have t4: "inbound_loop (on_message_posix example_env 3) [] [TEXT resize_40_100, BINARY ''ls''] None
      = ([(IoctlTIOCSWINSZ 3 (40, 100, 0, 0), None), (OsWrite 3 ''ls'', None)], None)"
    using resize_in_range_applied [OF example_loads_40_100, of 40 100 "[]" 3 "[BINARY ''ls'']" None]
    by (simp add: dict_get_def example_raises on_message_posix.simps perform_def seq_simps)
  from example_loads_40_100 example_loads_40 t1 t2 t3 t4 show ?thesis by blast
qed

text \<open>
  C3 as stated fails above the range of an unsigned short. With 70000 rows (and 80
  columns, both positive) \<^verbatim>\<open>struct.pack\<close> raises inside the \<^verbatim>\<open>try\<close> statement, the
  \<^verbatim>\<open>except\<close> clause catches it, and the whole resize message is written to the PTY as
  input; the geometry is not set.
\<close>

theorem oversized_resize_forwarded_counterexample:
  "json_loads example_env resize_70000_80
     = Inr (JDict [(''type'', JStr ''resize''), (''rows'', JInt 70000), (''cols'', JInt 80)])
   \<and> on_message_posix example_env 3 [] (TEXT resize_70000_80)
       = ([(OsWrite 3 resize_70000_80, None)], None)
   \<and> pty_geometry (fst (on_message_posix example_env 3 [] (TEXT resize_70000_80))) = None
   \<and> pty_input (fst (on_message_posix example_env 3 [] (TEXT resize_70000_80))) = resize_70000_80"
proof -
  have step: "on_message_posix example_env 3 [] (TEXT resize_70000_80)
       = ([(OsWrite 3 resize_70000_80, None)], None)"
    by (simp add: on_message_posix.simps text_try_posix_def example_loads_70000 dict_get_def
        set_pty_size_def struct_pack_HHHH_def try_except_simps perform_def example_raises
        str_encode_def)
  show ?thesis
    by (simp add: step example_loads_70000 pty_input_def)
qed

text \<open>
  C9, as the code has it. When a field of a resize object is not an integer from 0 to
  65535, \<^verbatim>\<open>struct.pack\<close> raises before any ioctl: the value is neither clamped nor
  replaced by a default, and the geometry of the PTY stays what it was. The error is
  caught in the handler: where no call of the environment raises, handling the message
  raises nothing. The Windows branch hands the two values to \<^verbatim>\<open>pty.setwinsize\<close> as they
  are. Only a missing field gets a default, 24 rows or 80 columns.
\<close>

theorem malformed_resize_not_applied:
  assumes "json_loads env data = Inr j" and "is_resize j"
    and "pack_H (resize_rows j) = Inl StructError \<or> pack_H (resize_cols j) = Inl StructError"
  shows "text_try_posix env fd tr data = (tr, Some StructError)
       \<and> pty_geometry (fst (on_message_posix env fd tr (TEXT data))) = pty_geometry tr
       \<and> ((\<forall>h c. raises env h c = None) \<longrightarrow> snd (on_message_posix env fd tr (TEXT data)) = None)
       \<and> text_try_windows env tr data
            = perform env tr (PtySetwinsize (resize_rows j) (resize_cols j))
       \<and> (\<forall>kvs. j = JDict kvs \<and> map_of kvs ''rows'' = None \<longrightarrow> resize_rows j = JInt 24)
       \<and> (\<forall>kvs. j = JDict kvs \<and> map_of kvs ''cols'' = None \<longrightarrow> resize_cols j = JInt 80)"
proof -
  have body: "text_try_posix env fd tr data = (tr, Some StructError)"
    using assms by (simp add: text_try_posix_def set_pty_size_bad)
  have step: "on_message_posix env fd tr (TEXT data) = perform env tr (OsWrite fd (str_encode data))"
    by (simp add: on_message_posix.simps body try_except_simps)
  have geo: "pty_geometry (fst (on_message_posix env fd tr (TEXT data))) = pty_geometry tr"
    by (simp add: step perform_def pty_geometry_append)
  have ok: "(\<forall>h c. raises env h c = None) \<longrightarrow> snd (on_message_posix env fd tr (TEXT data)) = None"
    by (simp add: step perform_def)
  have win: "text_try_windows env tr data
            = perform env tr (PtySetwinsize (resize_rows j) (resize_cols j))"
    using assms(1,2) by (simp add: text_try_windows_def)
  have d1: "\<forall>kvs. j = JDict kvs \<and> map_of kvs ''rows'' = None \<longrightarrow> resize_rows j = JInt 24"
    by (simp add: dict_get_def)
  have d2: "\<forall>kvs. j = JDict kvs \<and> map_of kvs ''cols'' = None \<longrightarrow> resize_cols j = JInt 80"
    by (simp add: dict_get_def)
  from body geo ok win d1 d2 show ?thesis by blast
qed

theorem malformed_resize_not_applied_witness:
  "json_loads example_env resize_70000_80
     = Inr (JDict [(''type'', JStr ''resize''), (''rows'', JInt 70000), (''cols'', JInt 80)])
   \<and> pack_H (JInt 70000) = Inl StructError
   \<and> text_try_posix example_env 3 [] resize_70000_80 = ([], Some StructError)
   \<and> pty_geometry (fst (on_message_posix example_env 3 [] (TEXT resize_70000_80))) = None
   \<and> snd (on_message_posix example_env 3 [] (TEXT resize_70000_80)) = None"
proof -
  let ?j = "JDict [(''type'', JStr ''resize''), (''rows'', JInt 70000), (''cols'', JInt 80)]"
  have r: "is_resize ?j" by (simp add: dict_get_def)
  have p: "pack_H (JInt 70000) = Inl StructError" by simp
  have b: "pack_H (resize_rows ?j) = Inl StructError \<or> pack_H (resize_cols ?j) = Inl StructError"
    by (simp add: dict_get_def)
  have n: "\<forall>h c. raises example_env h c = None" by (simp add: example_raises)
  note t = malformed_resize_not_applied [OF example_loads_70000 r b, of 3 "[]"]
  have t1: "text_try_posix example_env 3 [] resize_70000_80 = ([], Some StructError)"
    using t by blast
  have t2: "pty_geometry (fst (on_message_posix example_env 3 [] (TEXT resize_70000_80))) = None"
    using t by simp
  have t3: "snd (on_message_posix example_env 3 [] (TEXT resize_70000_80)) = None"
    using t n by blast
  from example_loads_70000 p t1 t2 t3 show ?thesis by blast
qed

text \<open>
  C9 as stated fails: after the geometry 40 by 100, a resize to 70000 by 80 leaves 40 by
  100. The rows are not clamped to 65535 and not replaced by 24.
\<close>

theorem oversized_resize_not_clamped_counterexample:
  "on_message_posix example_env 3 [(IoctlTIOCSWINSZ 3 (40, 100, 0, 0), None)] (TEXT resize_70000_80)
     = ([(IoctlTIOCSWINSZ 3 (40, 100, 0, 0), None), (OsWrite 3 resize_70000_80, None)], None)
   \<and> pty_geometry [(IoctlTIOCSWINSZ 3 (40, 100, 0, 0), None)] = Some (40, 100)
   \<and> pty_geometry (fst (on_message_posix example_env 3 [(IoctlTIOCSWINSZ 3 (40, 100, 0, 0), None)]
        (TEXT resize_70000_80))) = Some (40, 100)"
proof -
  have step: "on_message_posix example_env 3 [(IoctlTIOCSWINSZ 3 (40, 100, 0, 0), None)]
       (TEXT resize_70000_80)
     = ([(IoctlTIOCSWINSZ 3 (40, 100, 0, 0), None), (OsWrite 3 resize_70000_80, None)], None)"
    by (simp add: on_message_posix.simps text_try_posix_def example_loads_70000 dict_get_def
        set_pty_size_def struct_pack_HHHH_def try_except_simps perform_def example_raises
        str_encode_def)
  show ?thesis by (simp add: step)
qed

subsection \<open>Writes that raise\<close>

text \<open>
  C7, as the code has it. No write to the PTY is guarded. When the write of a binary
  frame, or of a text frame that does not parse, raises, the exception leaves the
  inbound loop at once (later messages are not handled), and after the \<^verbatim>\<open>finally\<close>
  clause the handler still raises. This holds in both branches.
\<close>

theorem write_error_propagates:
  "(raises env tr (OsWrite fd data) = Some e \<longrightarrow>
      inbound_loop (on_message_posix env fd) tr (BINARY data # ms) fin
        = (tr @ [(OsWrite fd data, Some e)], Some e)
      \<and> snd (try_finally (inbound_loop (on_message_posix env fd) tr (BINARY data # ms) fin)
               (teardown_posix env fd)) \<noteq> None)
   \<and> (raises env tr (PtyWrite (Bytes data)) = Some e \<longrightarrow>
      inbound_loop (on_message_windows env) tr (BINARY data # ms) fin
        = (tr @ [(PtyWrite (Bytes data), Some e)], Some e)
      \<and> snd (try_finally (inbound_loop (on_message_windows env) tr (BINARY data # ms) fin)
               (teardown_windows env)) \<noteq> None)
   \<and> (json_loads env text = Inl x \<and> is_Exception x
        \<and> raises env tr (OsWrite fd (str_encode text)) = Some e \<longrightarrow>
      inbound_loop (on_message_posix env fd) tr (TEXT text # ms) fin
        = (tr @ [(OsWrite fd (str_encode text), Some e)], Some e))
   \<and> (json_loads env text = Inl x \<and> is_Exception x
        \<and> raises env tr (PtyWrite (Str text)) = Some e \<longrightarrow>
      inbound_loop (on_message_windows env) tr (TEXT text # ms) fin
        = (tr @ [(PtyWrite (Str text), Some e)], Some e))"
  by (simp add: on_message_posix.simps on_message_windows.simps perform_def seq_simps
      try_finally_raised text_try_posix_def text_try_windows_def try_except_simps)

theorem write_error_propagates_witness:
  "raises exited_env [] (OsWrite 3 ''ls'') = Some OSError
   \<and> inbound_loop (on_message_posix exited_env 3) [] [BINARY ''ls'', BINARY ''pwd''] None
       = ([(OsWrite 3 ''ls'', Some OSError)], Some OSError)
   \<and> snd (try_finally
         (inbound_loop (on_message_posix exited_env 3) [] [BINARY ''ls'', BINARY ''pwd''] None)
         (teardown_posix exited_env 3)) \<noteq> None"
proof -
  have r: "raises exited_env [] (OsWrite 3 ''ls'') = Some OSError"
    by (simp add: exited_raises)
  note t = write_error_propagates [of exited_env "[]" 3 "''ls''" OSError "[BINARY ''pwd'']" None]
  have t1: "inbound_loop (on_message_posix exited_env 3) [] [BINARY ''ls'', BINARY ''pwd''] None
       = ([(OsWrite 3 ''ls'', Some OSError)], Some OSError)"
    using t r by simp
  have t2: "snd (try_finally
         (inbound_loop (on_message_posix exited_env 3) [] [BINARY ''ls'', BINARY ''pwd''] None)
         (teardown_posix exited_env 3)) \<noteq> None"
    using t r by blast
  from r t1 t2 show ?thesis by blast
qed

text \<open>
  C7 as stated fails: in an environment where the write to the PTY raises
  \<^verbatim>\<open>OSError\<close>, which is the failing write after the child's exit that the claim is
  about, a session that receives one binary frame ends with that error raised from the
  handler.
\<close>

theorem write_after_exit_counterexample:
  "websocket_handler exited_env False good_request [BINARY ''ls''] None =
     ([(WsPrepare, None), (OsOpenpty, None), (Popen ''/bin/bash'' ''xterm-256color'' 4, None),
       (OsClose 4, None), (EnsureFuture, None), (OsWrite 3 ''ls'', Some OSError),
       (TaskCancel, None), (ProcTerminate, None), (OsClose 3, None)], Some OSError)"
  by (simp add: websocket_handler_def token_rejected_def offered_token_def exited_env_def
      example_env_def good_request_def session_posix_def perform_def emit_def seq_simps
      on_message_posix.simps try_finally_def teardown_posix_def)

subsection \<open>Facts about the relay, the loop and the sessions\<close>

lemma occurrences_simps:
  "occurrences c [] = 0"
  "occurrences c (tr @ tr') = occurrences c tr + occurrences c tr'"
  "occurrences c (ev # tr) = (if fst ev = c then 1 else 0) + occurrences c tr"
  by (simp_all add: occurrences_def)

lemma binary_frames_simps:
  "binary_frames [] = []"
  "binary_frames (tr @ tr') = binary_frames tr @ binary_frames tr'"
  "binary_frames (ev # tr) = frame_of ev @ binary_frames tr"
  by (simp_all add: binary_frames_def)

lemma relay_finish_frames: "binary_frames (fst (relay_finish env tr)) = binary_frames tr"
  by (simp add: relay_finish_def seq_def perform_def binary_frames_simps split: option.splits)

lemma posix_frames_reliable:
  assumes "\<forall>h d. raises env h (WsSendBytes d) = None"
  shows "binary_frames (fst (read_pty_posix env tr reads)) = binary_frames tr @ chunks_read reads"
  using assms
proof (induction reads arbitrary: tr)
  case Nil
  then show ?case by simp
next
  case (Cons r reads)
  show ?case
  proof (cases r)
    case (Inl e)
    then show ?thesis by simp
  next
    case (Inr data)
    then show ?thesis
      using Cons.prems Cons.IH [OF Cons.prems, of "tr @ [(WsSendBytes data, None)]"]
      by (simp add: relay_finish_frames perform_def binary_frames_simps)
  qed
qed

lemma posix_frames_prefix:
  "prefix (binary_frames (fst (read_pty_posix env tr reads))) (binary_frames tr @ chunks_read reads)"
proof (induction reads arbitrary: tr)
  case Nil
  then show ?case by simp
next
  case (Cons r reads)
  show ?case
  proof (cases r)
    case (Inl e)
    then show ?thesis by simp
  next
    case (Inr data)
    show ?thesis
    proof (cases "raises env tr (WsSendBytes data)")
      case None
      then show ?thesis
        using Inr Cons.IH [of "tr @ [(WsSendBytes data, None)]"]
        by (simp add: relay_finish_frames perform_def binary_frames_simps)
    next
      case (Some e)
      then show ?thesis
        using Inr by (simp add: relay_finish_frames perform_def binary_frames_simps)
    qed
  qed
qed

lemma windows_frames_reliable:
  assumes "\<forall>h d. raises env h (WsSendBytes d) = None"
  shows "binary_frames (fst (read_pty_windows env tr polls)) = binary_frames tr @ chunks_polled polls"
  using assms
proof (induction env tr polls rule: read_pty_windows.induct)
  case (4 env tr data ps)
  then show ?case
    by (simp add: relay_finish_frames perform_def binary_frames_simps)
qed (simp_all add: relay_finish_frames)

lemma windows_frames_prefix:
  "prefix (binary_frames (fst (read_pty_windows env tr polls))) (binary_frames tr @ chunks_polled polls)"
proof (induction env tr polls rule: read_pty_windows.induct)
  case (4 env tr data ps)
  then show ?case
    by (cases "raises env tr (WsSendBytes (as_bytes data))")
      (simp_all add: relay_finish_frames perform_def binary_frames_simps)
qed (simp_all add: relay_finish_frames)

lemma posix_step_occurrences:
  "\<not> is_pty_call c \<Longrightarrow> occurrences c (fst (on_message_posix env fd tr m)) = occurrences c tr"
  by (cases m)
    (auto simp: on_message_posix.simps text_try_posix_def set_pty_size_def try_except_def
      perform_def occurrences_simps split: sum.splits option.splits)

lemma windows_step_occurrences:
  "\<not> is_pty_call c \<Longrightarrow> occurrences c (fst (on_message_windows env tr m)) = occurrences c tr"
  by (cases m)
    (auto simp: on_message_windows.simps text_try_windows_def try_except_def
      perform_def occurrences_simps split: sum.splits option.splits)

lemma inbound_loop_Cons:
  "m \<noteq> CLOSE \<Longrightarrow>
   inbound_loop step tr (m # ms) fin = seq (step tr m) (\<lambda>tr'. inbound_loop step tr' ms fin)"
  by (cases m) simp_all

lemma loop_occurrences:
  assumes "\<And>tr m. occurrences c (fst (step tr m)) = occurrences c tr"
  shows "occurrences c (fst (inbound_loop step tr ms fin)) = occurrences c tr"
proof (induction ms arbitrary: tr)
  case Nil
  then show ?case by simp
next
  case (Cons m ms)
  show ?case
  proof (cases "m = CLOSE")
    case True
    then show ?thesis by simp
  next
    case False
    obtain tr' r where s: "step tr m = (tr', r)" by (cases "step tr m")
    have o: "occurrences c tr' = occurrences c tr"
      using assms [of tr m] s by simp
    show ?thesis
      using False s o Cons.IH [of tr']
      by (cases r) (simp_all add: inbound_loop_Cons seq_simps)
  qed
qed

lemma posix_loop_occurrences:
  "\<not> is_pty_call c \<Longrightarrow>
   occurrences c (fst (inbound_loop (on_message_posix env fd) tr ms fin)) = occurrences c tr"
  by (rule loop_occurrences) (rule posix_step_occurrences)

lemma windows_loop_occurrences:
  "\<not> is_pty_call c \<Longrightarrow>
   occurrences c (fst (inbound_loop (on_message_windows env) tr ms fin)) = occurrences c tr"
  by (rule loop_occurrences) (rule windows_step_occurrences)

lemma teardown_posix_occurrences:
  "occurrences c (fst (teardown_posix env fd tr)) =
     occurrences c tr + (if c = TaskCancel then 1 else 0) + (if c = ProcTerminate then 1 else 0)
       + (if c = OsClose fd \<and> raises env (tr @ [(TaskCancel, None)]) ProcTerminate = None
          then 1 else 0)"
  by (auto simp: teardown_posix_def seq_def emit_def perform_def occurrences_simps
      split: option.splits)

lemma teardown_windows_occurrences:
  "occurrences c (fst (teardown_windows env tr)) =
     occurrences c tr + (if c = TaskCancel then 1 else 0) + (if c = PtyTerminate then 1 else 0)"
  by (auto simp: teardown_windows_def seq_def emit_def perform_def try_except_def
      occurrences_simps split: option.splits)

lemma fst_try_finally: "fst (try_finally r cleanup) = fst (cleanup (fst r))"
  by (simp add: try_finally_def split: prod.splits option.splits)


lemma occurrences_absent: "(\<forall>ev\<in>set tr. fst ev \<noteq> c) \<Longrightarrow> occurrences c tr = 0"
  by (induction tr) (simp_all add: occurrences_simps)

lemma session_posix_shape:
  fixes env req tr msgs fin
  defines "master \<equiv> fst (openpty_fds env)" and "slave \<equiv> snd (openpty_fds env)"
  shows "(\<exists>pre. fst (session_posix env req tr msgs fin) = tr @ pre
            \<and> (\<forall>ev\<in>set pre. is_spawn_call (fst ev) \<or> fst ev = OsClose slave))
       \<or> (\<exists>pre. (\<forall>ev\<in>set pre. is_spawn_call (fst ev) \<or> fst ev = OsClose slave)
            \<and> fst (session_posix env req tr msgs fin)
               = fst (teardown_posix env master
                   (fst (inbound_loop (on_message_posix env master)
                      (tr @ pre @ [(EnsureFuture, None)]) msgs fin))))"
proof -
  define term_value where
    "term_value = (case os_environ env ''TERM'' of None \<Rightarrow> ''xterm-256color'' | Some t \<Rightarrow> t)"
  define c1 where "c1 = OsOpenpty"
  define c2 where "c2 = Popen (app_shell req) term_value slave"
  define c3 where "c3 = OsClose slave"
  have sp: "is_spawn_call c1" "is_spawn_call c2" by (simp_all add: c1_def c2_def)
  show ?thesis
  proof (cases "raises env tr c1")
    case (Some e)
    then have "fst (session_posix env req tr msgs fin) = tr @ [(c1, Some e)]"
      by (simp add: session_posix_def perform_def seq_simps c1_def)
    then show ?thesis using sp by auto
  next
    case n1: None
    show ?thesis
    proof (cases "raises env (tr @ [(c1, None)]) c2")
      case (Some e)
      then have "fst (session_posix env req tr msgs fin) = tr @ [(c1, None), (c2, Some e)]"
        using n1
        by (simp add: session_posix_def perform_def seq_simps c1_def c2_def term_value_def
            slave_def Let_def)
      then show ?thesis using sp by auto
    next
      case n2: None
      show ?thesis
      proof (cases "raises env (tr @ [(c1, None), (c2, None)]) c3")
        case (Some e)
        then have "fst (session_posix env req tr msgs fin)
            = tr @ [(c1, None), (c2, None), (c3, Some e)]"
          using n1 n2
          by (simp add: session_posix_def perform_def seq_simps c1_def c2_def c3_def
              term_value_def slave_def Let_def)
        then show ?thesis using sp by (auto simp: c3_def)
      next
        case n3: None
        have "fst (session_posix env req tr msgs fin)
               = fst (teardown_posix env master
                   (fst (inbound_loop (on_message_posix env master)
                      (tr @ [(c1, None), (c2, None), (c3, None)] @ [(EnsureFuture, None)])
                      msgs fin)))"
          using n1 n2 n3
          by (simp add: session_posix_def perform_def emit_def seq_simps c1_def c2_def c3_def
              term_value_def slave_def master_def Let_def fst_try_finally)
        moreover have "\<forall>ev\<in>set [(c1, None :: exn option), (c2, None), (c3, None)].
            is_spawn_call (fst ev) \<or> fst ev = OsClose slave"
          using sp by (simp add: c3_def)
        ultimately show ?thesis by blast
      qed
    qed
  qed
qed


lemma session_windows_shape:
  "(\<exists>pre. fst (session_windows env req tr msgs fin) = tr @ pre
            \<and> (\<forall>ev\<in>set pre. is_spawn_call (fst ev)))
   \<or> (\<exists>pre. (\<forall>ev\<in>set pre. is_spawn_call (fst ev))
         \<and> fst (session_windows env req tr msgs fin)
             = fst (teardown_windows env
                 (fst (inbound_loop (on_message_windows env)
                    (tr @ pre @ [(EnsureFuture, None)]) msgs fin))))"
proof (cases "raises env tr (PtySpawn (app_shell req) (24, 80))")
  case (Some e)
  then have "fst (session_windows env req tr msgs fin)
      = tr @ [(PtySpawn (app_shell req) (24, 80), Some e)]"
    by (simp add: session_windows_def perform_def seq_simps)
  then show ?thesis by auto
next
  case None
  then have "fst (session_windows env req tr msgs fin)
      = fst (teardown_windows env
                 (fst (inbound_loop (on_message_windows env)
                    (tr @ [(PtySpawn (app_shell req) (24, 80), None)] @ [(EnsureFuture, None)])
                    msgs fin)))"
    by (simp add: session_windows_def perform_def emit_def seq_simps fst_try_finally)
  moreover have "\<forall>ev\<in>set [(PtySpawn (app_shell req) (24, 80), None :: exn option)].
      is_spawn_call (fst ev)"
    by simp
  ultimately show ?thesis by blast
qed

lemma session_posix_counts:
  fixes env req tr msgs fin
  defines "S \<equiv> fst (session_posix env req tr msgs fin)"
  shows "\<exists>k\<le>1.
      occurrences EnsureFuture S = occurrences EnsureFuture tr + k
    \<and> occurrences TaskCancel S = occurrences TaskCancel tr + k
    \<and> occurrences ProcTerminate S = occurrences ProcTerminate tr + k
    \<and> occurrences PtyTerminate S = occurrences PtyTerminate tr
    \<and> occurrences (WsSendStr s) S = occurrences (WsSendStr s) tr
    \<and> (fst (openpty_fds env) \<noteq> snd (openpty_fds env) \<longrightarrow>
         occurrences (OsClose (fst (openpty_fds env))) S
           \<le> occurrences (OsClose (fst (openpty_fds env))) tr + k)"
proof -
  let ?master = "fst (openpty_fds env)" and ?slave = "snd (openpty_fds env)"
  have absent: "occurrences c pre = 0"
    if "\<forall>ev\<in>set pre. is_spawn_call (fst ev) \<or> fst ev = OsClose ?slave"
      and "\<not> is_spawn_call c" and "c \<noteq> OsClose ?slave" for c and pre :: trace
    using that by (intro occurrences_absent) auto
  from session_posix_shape [of env req tr msgs fin]
  consider (failed) pre where "S = tr @ pre"
      "\<forall>ev\<in>set pre. is_spawn_call (fst ev) \<or> fst ev = OsClose ?slave"
    | (ran) pre where "\<forall>ev\<in>set pre. is_spawn_call (fst ev) \<or> fst ev = OsClose ?slave"
      "S = fst (teardown_posix env ?master
                   (fst (inbound_loop (on_message_posix env ?master)
                      (tr @ pre @ [(EnsureFuture, None)]) msgs fin)))"
    unfolding S_def by blast
  then show ?thesis
  proof cases
    case failed
    have "occurrences EnsureFuture S = occurrences EnsureFuture tr + 0"
      "occurrences TaskCancel S = occurrences TaskCancel tr + 0"
      "occurrences ProcTerminate S = occurrences ProcTerminate tr + 0"
      "occurrences PtyTerminate S = occurrences PtyTerminate tr"
      "occurrences (WsSendStr s) S = occurrences (WsSendStr s) tr"
      "?master \<noteq> ?slave \<longrightarrow>
         occurrences (OsClose ?master) S \<le> occurrences (OsClose ?master) tr + 0"
      using failed(1) absent [OF failed(2)] by (simp_all add: occurrences_simps)
    then show ?thesis by blast
  next
    case ran
    have "occurrences EnsureFuture S = occurrences EnsureFuture tr + 1"
      "occurrences TaskCancel S = occurrences TaskCancel tr + 1"
      "occurrences ProcTerminate S = occurrences ProcTerminate tr + 1"
      "occurrences PtyTerminate S = occurrences PtyTerminate tr"
      "occurrences (WsSendStr s) S = occurrences (WsSendStr s) tr"
      "?master \<noteq> ?slave \<longrightarrow>
         occurrences (OsClose ?master) S \<le> occurrences (OsClose ?master) tr + 1"
      using absent [OF ran(1)]
      by (simp_all add: ran(2) teardown_posix_occurrences posix_loop_occurrences
          occurrences_simps)
    then show ?thesis by (intro exI [of _ 1]) simp
  qed
qed

lemma session_windows_counts:
  fixes env req tr msgs fin
  defines "S \<equiv> fst (session_windows env req tr msgs fin)"
  shows "\<exists>k\<le>1.
      occurrences EnsureFuture S = occurrences EnsureFuture tr + k
    \<and> occurrences TaskCancel S = occurrences TaskCancel tr + k
    \<and> occurrences PtyTerminate S = occurrences PtyTerminate tr + k
    \<and> occurrences ProcTerminate S = occurrences ProcTerminate tr
    \<and> occurrences (WsSendStr s) S = occurrences (WsSendStr s) tr
    \<and> occurrences (OsClose fd) S = occurrences (OsClose fd) tr"
proof -
  have absent: "occurrences c pre = 0"
    if "\<forall>ev\<in>set pre. is_spawn_call (fst ev)" and "\<not> is_spawn_call c" for c and pre :: trace
    using that by (intro occurrences_absent) auto
  from session_windows_shape [of env req tr msgs fin]
  consider (failed) pre where "S = tr @ pre" "\<forall>ev\<in>set pre. is_spawn_call (fst ev)"
    | (ran) pre where "\<forall>ev\<in>set pre. is_spawn_call (fst ev)"
      "S = fst (teardown_windows env
                 (fst (inbound_loop (on_message_windows env)
                    (tr @ pre @ [(EnsureFuture, None)]) msgs fin)))"
    unfolding S_def by blast
  then show ?thesis
  proof cases
    case failed
    have "occurrences EnsureFuture S = occurrences EnsureFuture tr + 0"
      "occurrences TaskCancel S = occurrences TaskCancel tr + 0"
      "occurrences PtyTerminate S = occurrences PtyTerminate tr + 0"
      "occurrences ProcTerminate S = occurrences ProcTerminate tr"
      "occurrences (WsSendStr s) S = occurrences (WsSendStr s) tr"
      "occurrences (OsClose fd) S = occurrences (OsClose fd) tr"
      using failed(1) absent [OF failed(2)] by (simp_all add: occurrences_simps)
    then show ?thesis by blast
  next
    case ran
    have "occurrences EnsureFuture S = occurrences EnsureFuture tr + 1"
      "occurrences TaskCancel S = occurrences TaskCancel tr + 1"
      "occurrences PtyTerminate S = occurrences PtyTerminate tr + 1"
      "occurrences ProcTerminate S = occurrences ProcTerminate tr"
      "occurrences (WsSendStr s) S = occurrences (WsSendStr s) tr"
      "occurrences (OsClose fd) S = occurrences (OsClose fd) tr"
      using absent [OF ran(1)]
      by (simp_all add: ran(2) teardown_windows_occurrences windows_loop_occurrences
          occurrences_simps)
    then show ?thesis by (intro exI [of _ 1]) simp
  qed
qed

lemma rejection_not_disconnect: "rejection_text \<noteq> disconnect_notice"
  by (simp add: rejection_text_def disconnect_notice_def)

lemma handler_counts:
  fixes env is_windows req msgs fin
  defines "H \<equiv> fst (websocket_handler env is_windows req msgs fin)"
  shows "\<exists>k\<le>1.
      occurrences EnsureFuture H = k
    \<and> occurrences TaskCancel H = k
    \<and> occurrences ProcTerminate H = (if is_windows then 0 else k)
    \<and> occurrences PtyTerminate H = (if is_windows then k else 0)
    \<and> occurrences (WsSendStr disconnect_notice) H = 0
    \<and> (fst (openpty_fds env) \<noteq> snd (openpty_fds env) \<longrightarrow>
         occurrences (OsClose (fst (openpty_fds env))) H \<le> k)"
proof (cases "raises env [] WsPrepare")
  case (Some e)
  then have "H = [(WsPrepare, Some e)]"
    by (simp add: H_def websocket_handler_def perform_def seq_simps)
  then show ?thesis by (simp add: occurrences_simps)
next
  case None
  let ?tr = "[(WsPrepare, None :: exn option)]"
  show ?thesis
  proof (cases "token_rejected env req")
    case True
    then have "H = fst (seq (perform env ?tr (WsSendStr rejection_text))
                         (\<lambda>tr'. perform env tr' WsClose))"
      using None by (simp add: H_def websocket_handler_def perform_def seq_simps)
    then show ?thesis
      using rejection_not_disconnect
      by (simp add: perform_def seq_def occurrences_simps split: option.splits)
  next
    case False
    show ?thesis
    proof (cases is_windows)
      case True
      then have H: "H = fst (session_windows env req ?tr msgs fin)"
        using None \<open>\<not> token_rejected env req\<close>
        by (simp add: H_def websocket_handler_def perform_def seq_simps)
      from session_windows_counts [of env req ?tr msgs fin disconnect_notice
          "fst (openpty_fds env)"] True
      show ?thesis unfolding H by (simp add: occurrences_simps)
    next
      case False
      then have H: "H = fst (session_posix env req ?tr msgs fin)"
        using None \<open>\<not> token_rejected env req\<close>
        by (simp add: H_def websocket_handler_def perform_def seq_simps)
      from session_posix_counts [of env req ?tr msgs fin disconnect_notice] False
      show ?thesis unfolding H by (simp add: occurrences_simps)
    qed
  qed
qed

subsection \<open>The relay of the shell's output\<close>

text \<open>
  C5. The binary frames the relay has sent are always a prefix of the chunks it has
  read from the PTY, in the order read: nothing is inserted, duplicated or reordered.
  Where no \<^verbatim>\<open>send_bytes\<close> raises (the connection is up and the task is not
  cancelled), the frames are exactly the chunks read up to the end of the output, so the
  bytes sent are the bytes read. This holds for the POSIX relay and for the Windows one.
\<close>

theorem relay_preserves_bytes:
  "((\<forall>h d. raises env h (WsSendBytes d) = None) \<longrightarrow>
      binary_frames (fst (read_pty_posix env [] reads)) = chunks_read reads
      \<and> concat (binary_frames (fst (read_pty_posix env [] reads))) = concat (chunks_read reads)
      \<and> binary_frames (fst (read_pty_windows env [] polls)) = chunks_polled polls
      \<and> concat (binary_frames (fst (read_pty_windows env [] polls))) = concat (chunks_polled polls))
   \<and> prefix (binary_frames (fst (read_pty_posix env [] reads))) (chunks_read reads)
   \<and> prefix (binary_frames (fst (read_pty_windows env [] polls))) (chunks_polled polls)"
  using posix_frames_reliable [of env "[]" reads] windows_frames_reliable [of env "[]" polls]
    posix_frames_prefix [of env "[]" reads] windows_frames_prefix [of env "[]" polls]
  by (simp add: binary_frames_simps)

theorem relay_preserves_bytes_witness:
  "(\<forall>h d. raises example_env h (WsSendBytes d) = None)
   \<and> chunks_read [Inr ''ab'', Inr ''c'', Inr [], Inr ''zz''] = [''ab'', ''c'']
   \<and> binary_frames (fst (read_pty_posix example_env [] [Inr ''ab'', Inr ''c'', Inr [], Inr ''zz'']))
       = [''ab'', ''c'']
   \<and> concat (binary_frames (fst (read_pty_posix example_env []
         [Inr ''ab'', Inr ''c'', Inr [], Inr ''zz'']))) = ''abc''
   \<and> binary_frames (fst (read_pty_windows example_env []
         [Alive (Inr (Str ''ab'')), Alive (Inr (Bytes ''c'')), NotAlive])) = [''ab'', ''c'']"
proof -
  have r: "\<forall>h d. raises example_env h (WsSendBytes d) = None"
    by (simp add: example_raises)
  have c: "chunks_read [Inr ''ab'', Inr ''c'', Inr [], Inr ''zz''] = [''ab'', ''c'']"
    by simp
  have p: "chunks_polled [Alive (Inr (Str ''ab'')), Alive (Inr (Bytes ''c'')), NotAlive]
            = [''ab'', ''c'']"
    by (simp add: str_encode_def)
  note t = relay_preserves_bytes [of example_env "[Inr ''ab'', Inr ''c'', Inr [], Inr ''zz'']"
      "[Alive (Inr (Str ''ab'')), Alive (Inr (Bytes ''c'')), NotAlive]"]
  have t1: "binary_frames (fst (read_pty_posix example_env []
        [Inr ''ab'', Inr ''c'', Inr [], Inr ''zz''])) = [''ab'', ''c'']"
    using t r c by metis
  have t2: "concat (binary_frames (fst (read_pty_posix example_env []
         [Inr ''ab'', Inr ''c'', Inr [], Inr ''zz'']))) = ''abc''"
    unfolding t1 by simp
  have t3: "binary_frames (fst (read_pty_windows example_env []
         [Alive (Inr (Str ''ab'')), Alive (Inr (Bytes ''c'')), NotAlive])) = [''ab'', ''c'']"
    using t r p by metis
  from r c t1 t2 t3 show ?thesis by blast
qed

subsection \<open>Teardown\<close>




lemma windows_step_events:
  "\<exists>evs. fst (on_message_windows env tr m) = tr @ evs \<and> (\<forall>ev\<in>set evs. is_pty_call (fst ev))"
proof (cases m)
  case (TEXT data)
  show ?thesis
  proof (cases "text_try_windows env tr data")
    case (Pair tr1 r1)
    have body: "\<exists>evs. tr1 = tr @ evs \<and> (\<forall>ev\<in>set evs. is_pty_call (fst ev))"
      using Pair
      by (auto simp: text_try_windows_def perform_def split: sum.splits if_splits)
    then obtain evs where evs: "tr1 = tr @ evs" "\<forall>ev\<in>set evs. is_pty_call (fst ev)"
      by blast
    show ?thesis
    proof (cases "\<exists>e. r1 = Some e \<and> is_Exception e")
      case True
      then have "fst (on_message_windows env tr m)
          = tr @ (evs @ [(PtyWrite (Str data), raises env tr1 (PtyWrite (Str data)))])"
        using TEXT Pair evs(1)
        by (auto simp: on_message_windows.simps try_except_simps perform_def)
      moreover have "\<forall>ev\<in>set (evs @ [(PtyWrite (Str data),
          raises env tr1 (PtyWrite (Str data)))]). is_pty_call (fst ev)"
        using evs(2) by simp
      ultimately show ?thesis by blast
    next
      case False
      then have "fst (on_message_windows env tr m) = tr @ evs"
        using TEXT Pair evs(1)
        by (cases r1) (auto simp: on_message_windows.simps try_except_simps)
      then show ?thesis using evs(2) by blast
    qed
  qed
next
  case (BINARY data)
  then have "fst (on_message_windows env tr m)
      = tr @ [(PtyWrite (Bytes data), raises env tr (PtyWrite (Bytes data)))]"
    by (simp add: on_message_windows.simps perform_def)
  then show ?thesis by simp
next
  case CLOSE
  then show ?thesis by (simp add: on_message_windows.simps)
next
  case OTHER
  then show ?thesis by (simp add: on_message_windows.simps)
qed









lemma relay_finish_calls:
  "occurrences c (fst (relay_finish env tr)) \<le> Suc (occurrences c tr)"
  by (auto simp: relay_finish_def seq_def perform_def occurrences_simps split: option.splits)

lemma posix_relay_calls:
  assumes "\<forall>d. WsSendBytes d \<noteq> c"
  shows "occurrences c (fst (read_pty_posix env tr reads)) \<le> Suc (occurrences c tr)"
proof (induction reads arbitrary: tr)

  case Nil
  then show ?case by simp
next
  case (Cons r reads)
  show ?case
  proof (cases r)
    case (Inl e)
    then show ?thesis by simp
  next
    case (Inr data)
    show ?thesis
    proof (cases "raises env tr (WsSendBytes data)")
      case None
      then show ?thesis
        using Inr Cons.IH [of "tr @ [(WsSendBytes data, None)]"]
          relay_finish_calls [of c env tr] assms
        by (auto simp: perform_def occurrences_simps)
    next
      case (Some e)
      then show ?thesis
        using Inr relay_finish_calls [of c env tr] assms
        by (simp add: perform_def occurrences_simps)
    qed
  qed
qed

lemma windows_relay_calls:
  assumes "\<forall>d. WsSendBytes d \<noteq> c"
  shows "occurrences c (fst (read_pty_windows env tr polls)) \<le> Suc (occurrences c tr)"
proof (induction env tr polls rule: read_pty_windows.induct)
  case (4 env tr data ps)
  then show ?case
    using relay_finish_calls [of c env tr] assms
    by (cases "raises env tr (WsSendBytes (as_bytes data))")
      (auto simp: perform_def occurrences_simps)
qed (simp_all add: relay_finish_calls)





subsection \<open>The disconnect notice\<close>

lemma relay_finish_sent:
  "raises env tr (WsSendStr disconnect_notice) = None \<Longrightarrow>
   fst (relay_finish env tr)
     = tr @ [(WsSendStr disconnect_notice, None),
             (WsClose, raises env (tr @ [(WsSendStr disconnect_notice, None)]) WsClose)]"
  by (simp add: relay_finish_def perform_def seq_def split: option.splits)

lemma posix_relay_end_of_output:
  assumes "\<forall>h d. raises env h (WsSendBytes d) = None"
    and "\<forall>h. raises env h (WsSendStr disconnect_notice) = None"
    and "[] \<notin> set chunks"
  shows "fst (read_pty_posix env tr (map Inr chunks @ Inr [] # rest))
     = tr @ map (\<lambda>d. (WsSendBytes d, None)) chunks
          @ [(WsSendStr disconnect_notice, None),
             (WsClose, raises env (tr @ map (\<lambda>d. (WsSendBytes d, None)) chunks
                 @ [(WsSendStr disconnect_notice, None)]) WsClose)]"
  using assms
proof (induction chunks arbitrary: tr)
  case Nil
  then show ?case by (simp add: relay_finish_sent)
next
  case (Cons d chunks)
  then show ?case by (auto simp: perform_def)
qed

lemma windows_relay_end_of_output:
  assumes "\<forall>h d. raises env h (WsSendBytes d) = None"
    and "\<forall>h. raises env h (WsSendStr disconnect_notice) = None"
    and "\<forall>d\<in>set datas. \<not> py_data_empty d"
    and "stop = NotAlive \<or> (\<exists>d. stop = Alive (Inr d) \<and> py_data_empty d)"
  shows "fst (read_pty_windows env tr (map (\<lambda>d. Alive (Inr d)) datas @ stop # ps))
     = tr @ map (\<lambda>d. (WsSendBytes (as_bytes d), None)) datas
          @ [(WsSendStr disconnect_notice, None),
             (WsClose, raises env (tr @ map (\<lambda>d. (WsSendBytes (as_bytes d), None)) datas
                 @ [(WsSendStr disconnect_notice, None)]) WsClose)]"
  using assms
proof (induction datas arbitrary: tr)
  case Nil
  then show ?case by (auto simp: relay_finish_sent)
next
  case (Cons d datas)
  then show ?case by (auto simp: perform_def)
qed

lemma frames_no_notice:
  "occurrences (WsSendStr s) (map (\<lambda>d. (WsSendBytes (f d), None)) ds) = 0"
  by (induction ds) (simp_all add: occurrences_simps)

text \<open>
  What the relay does when the read of the PTY returns the empty byte string: where the
  sends of the frames and of the notice return, its trace is the chunks read before as
  binary frames, then one disconnect notice, then the close of the connection as the
  last call, whatever that close does (the handler's teardown may cancel the task
  inside it).
\<close>

lemma relay_end_of_output:
  assumes "\<forall>h d. raises env h (WsSendBytes d) = None"
    and "\<forall>h. raises env h (WsSendStr disconnect_notice) = None"
    and "[] \<notin> set chunks"
  shows "fst (read_pty_posix env [] (map Inr chunks @ Inr [] # rest))
     = map (\<lambda>d. (WsSendBytes d, None)) chunks
          @ [(WsSendStr disconnect_notice, None),
             (WsClose, raises env (map (\<lambda>d. (WsSendBytes d, None)) chunks
                 @ [(WsSendStr disconnect_notice, None)]) WsClose)]
   \<and> occurrences (WsSendStr disconnect_notice)
        (fst (read_pty_posix env [] (map Inr chunks @ Inr [] # rest))) = 1"
proof -
  have t: "fst (read_pty_posix env [] (map Inr chunks @ Inr [] # rest))
     = map (\<lambda>d. (WsSendBytes d, None)) chunks
          @ [(WsSendStr disconnect_notice, None),
             (WsClose, raises env (map (\<lambda>d. (WsSendBytes d, None)) chunks
                 @ [(WsSendStr disconnect_notice, None)]) WsClose)]"
    using posix_relay_end_of_output [OF assms, of "[]" rest] by simp
  show ?thesis
    unfolding t using frames_no_notice [of disconnect_notice "\<lambda>d. d" chunks]
    by (simp add: occurrences_simps)
qed

text \<open>
  In every run of either relay, whatever raises, the notice is sent at most once, and
  the handler never sends it.
\<close>

lemma notice_at_most_once:
  "occurrences (WsSendStr disconnect_notice) (fst (read_pty_posix env [] reads)) \<le> 1
   \<and> occurrences (WsSendStr disconnect_notice) (fst (read_pty_windows env [] polls)) \<le> 1
   \<and> occurrences (WsSendStr disconnect_notice)
        (fst (websocket_handler env is_windows req msgs fin)) = 0"
proof -
  have a: "\<forall>d. WsSendBytes d \<noteq> WsSendStr disconnect_notice" by simp
  have "occurrences (WsSendStr disconnect_notice) (fst (read_pty_posix env [] reads)) \<le> 1"
    using posix_relay_calls [OF a, of env "[]" reads] by (simp add: occurrences_simps)
  moreover have "occurrences (WsSendStr disconnect_notice)
      (fst (read_pty_windows env [] polls)) \<le> 1"
    using windows_relay_calls [OF a, of env "[]" polls] by (simp add: occurrences_simps)
  moreover have "occurrences (WsSendStr disconnect_notice)
        (fst (websocket_handler env is_windows req msgs fin)) = 0"
    using handler_counts [of env is_windows req msgs fin] by blast
  ultimately show ?thesis by blast
qed

text \<open>
  C4 fails where the exit of the shell makes the read raise instead of returning the
  empty byte string, as \<^verbatim>\<open>os.read\<close> on the master descriptor does on Linux
  (\<^verbatim>\<open>EIO\<close>). In every environment, a read that raises ends the POSIX relay at once:
  no call follows it. A shell that prints \<^verbatim>\<open>ab\<close> and exits so leaves the connection
  with one binary frame, no disconnect notice and no close. Had the same read returned
  the empty byte string, the notice and the close would have followed.
\<close>

theorem read_error_sends_no_notice:
  "read_pty_posix env tr (Inl e # rs) = (tr, Failed e)
   \<and> read_pty_posix example_env [] [Inr ''ab'', Inl OSError]
       = ([(WsSendBytes ''ab'', None)], Failed OSError)
   \<and> occurrences (WsSendStr disconnect_notice)
        (fst (read_pty_posix example_env [] [Inr ''ab'', Inl OSError])) = 0
   \<and> occurrences WsClose (fst (read_pty_posix example_env [] [Inr ''ab'', Inl OSError])) = 0
   \<and> read_pty_posix example_env [] [Inr ''ab'', Inr []]
       = ([(WsSendBytes ''ab'', None), (WsSendStr disconnect_notice, None), (WsClose, None)],
          Done)"
  by (simp add: perform_def example_raises occurrences_simps relay_finish_def seq_simps)

subsection \<open>The geometry at startup\<close>

text \<open>
  C8 fails in the POSIX branch. In every environment, a POSIX session that receives no
  message makes no call that sets a geometry. With the right token it opens the PTY,
  starts the shell, closes the slave descriptor and starts the relay: at the start of
  the relay the PTY holds no geometry that the program has set. The Windows branch of
  the same handler spawns the shell with 24 rows and 80 columns.
\<close>

theorem posix_startup_sets_no_geometry:
  "pty_geometry (fst (websocket_handler env False req [] fin)) = None
   \<and> websocket_handler example_env False good_request [] None =
     ([(WsPrepare, None), (OsOpenpty, None), (Popen ''/bin/bash'' ''xterm-256color'' 4, None),
       (OsClose 4, None), (EnsureFuture, None),
       (TaskCancel, None), (ProcTerminate, None), (OsClose 3, None)], None)
   \<and> pty_geometry [(WsPrepare, None), (OsOpenpty, None),
        (Popen ''/bin/bash'' ''xterm-256color'' 4, None), (OsClose 4, None),
        (EnsureFuture, None)] = None
   \<and> websocket_handler example_env True good_request [] None =
     ([(WsPrepare, None), (PtySpawn ''/bin/bash'' (24, 80), None), (EnsureFuture, None),
       (TaskCancel, None), (PtyTerminate, None)], None)
   \<and> pty_geometry [(WsPrepare, None), (PtySpawn ''/bin/bash'' (24, 80), None),
        (EnsureFuture, None)] = Some (24, 80)"
proof -
  have general: "pty_geometry (fst (websocket_handler env False req [] fin)) = None"
    by (auto simp: websocket_handler_def session_posix_def seq_def perform_def emit_def
        try_finally_def teardown_posix_def Let_def split: option.splits)
  have posix: "websocket_handler example_env False good_request [] None =
     ([(WsPrepare, None), (OsOpenpty, None), (Popen ''/bin/bash'' ''xterm-256color'' 4, None),
       (OsClose 4, None), (EnsureFuture, None),
       (TaskCancel, None), (ProcTerminate, None), (OsClose 3, None)], None)"
    by (simp add: websocket_handler_def token_rejected_def offered_token_def
        example_env_def good_request_def session_posix_def perform_def
        emit_def seq_simps try_finally_def teardown_posix_def)
  have windows: "websocket_handler example_env True good_request [] None =
     ([(WsPrepare, None), (PtySpawn ''/bin/bash'' (24, 80), None), (EnsureFuture, None),
       (TaskCancel, None), (PtyTerminate, None)], None)"
    by (simp add: websocket_handler_def token_rejected_def offered_token_def
        example_env_def good_request_def session_windows_def perform_def
        emit_def seq_simps try_finally_def teardown_windows_def try_except_simps)
  show ?thesis
    unfolding posix windows using general by simp
qed

end
